theory Spec2Isabelle
  imports Complex_Main "HOL-Library.Multiset" "HOL-Library.AList"
begin

section \<open>float64 values and arithmetic\<close>

text \<open>
  Sizes, prices and the account value are Go \<^verbatim>\<open>float64\<close> values. A finite value is
  kept as a sign bit and a non-negative magnitude, so that negative zero is a value of
  its own; the results of arithmetic are rounded to the nearest binary64 value, ties to
  even, with gradual underflow and overflow to infinity.
\<close>

datatype float64 = Finite bool rat | Infinity bool | NaN

function bitlen :: "int \<Rightarrow> int" where
  "bitlen n = (if n \<le> 0 then 0 else 1 + bitlen (n div 2))"
  by pat_completeness auto
termination
  by (relation "measure nat") auto

definition pow2 :: "int \<Rightarrow> rat" where
  "pow2 k = (if 0 \<le> k then 2 ^ nat k else 1 / 2 ^ nat (- k))"

definition binade :: "rat \<Rightarrow> int" where \<comment> \<open>\<open>\<lfloor>log\<^sub>2 q\<rfloor>\<close> for \<open>q > 0\<close>\<close>
  "binade q =
     (let (a, b) = quotient_of q;
          k = bitlen a - bitlen b
      in if pow2 k \<le> q then k else k - 1)"

definition round_half_even :: "rat \<Rightarrow> int" where
  "round_half_even m =
     (let f = \<lfloor>m\<rfloor>; r = m - of_int f
      in if r < 1 / 2 then f
         else if 1 / 2 < r then f + 1
         else if even f then f else f + 1)"

definition round64 :: "rat \<Rightarrow> rat option" where
  \<comment> \<open>the binary64 value nearest to a magnitude; \<open>None\<close> when it overflows\<close>
  "round64 q =
     (if q = 0 then Some 0
      else let u = pow2 (max (binade q - 52) (- 1074));
               v = of_int (round_half_even (q / u)) * u
           in if pow2 1024 \<le> v then None else Some v)"

definition mk_float :: "bool \<Rightarrow> rat \<Rightarrow> float64" where
  "mk_float s q = (case round64 q of None \<Rightarrow> Infinity s | Some v \<Rightarrow> Finite s v)"

definition f_zero :: float64 where "f_zero = Finite False 0"
definition f_one :: float64 where "f_one = Finite False 1"
definition f_hundred :: float64 where "f_hundred = Finite False 100"

fun f_neg :: "float64 \<Rightarrow> float64" where
  "f_neg (Finite s m) = Finite (\<not> s) m"
| "f_neg (Infinity s) = Infinity (\<not> s)"
| "f_neg NaN = NaN"

fun f_abs :: "float64 \<Rightarrow> float64" where \<comment> \<open>\<^verbatim>\<open>math.Abs\<close>\<close>
  "f_abs (Finite s m) = Finite False m"
| "f_abs (Infinity s) = Infinity False"
| "f_abs NaN = NaN"

fun signed :: "bool \<Rightarrow> rat \<Rightarrow> rat" where
  "signed s m = (if s then - m else m)"

fun f_add :: "float64 \<Rightarrow> float64 \<Rightarrow> float64" where
  "f_add NaN y = NaN"
| "f_add x NaN = NaN"
| "f_add (Infinity s) (Infinity t) = (if s = t then Infinity s else NaN)"
| "f_add (Infinity s) (Finite t m) = Infinity s"
| "f_add (Finite s m) (Infinity t) = Infinity t"
| "f_add (Finite s m) (Finite t n) =
     (let r = signed s m + signed t n
      in if r = 0 then Finite (s \<and> t) 0 else mk_float (r < 0) \<bar>r\<bar>)"

definition f_sub :: "float64 \<Rightarrow> float64 \<Rightarrow> float64" where
  "f_sub x y = f_add x (f_neg y)"

fun f_mul :: "float64 \<Rightarrow> float64 \<Rightarrow> float64" where
  "f_mul NaN y = NaN"
| "f_mul x NaN = NaN"
| "f_mul (Infinity s) (Infinity t) = Infinity (s \<noteq> t)"
| "f_mul (Infinity s) (Finite t m) = (if m = 0 then NaN else Infinity (s \<noteq> t))"
| "f_mul (Finite s m) (Infinity t) = (if m = 0 then NaN else Infinity (s \<noteq> t))"
| "f_mul (Finite s m) (Finite t n) = mk_float (s \<noteq> t) (m * n)"

fun f_div :: "float64 \<Rightarrow> float64 \<Rightarrow> float64" where
  "f_div NaN y = NaN"
| "f_div x NaN = NaN"
| "f_div (Infinity s) (Infinity t) = NaN"
| "f_div (Infinity s) (Finite t m) = Infinity (s \<noteq> t)"
| "f_div (Finite s m) (Infinity t) = Finite (s \<noteq> t) 0"
| "f_div (Finite s m) (Finite t n) =
     (if n = 0 then (if m = 0 then NaN else Infinity (s \<noteq> t))
      else mk_float (s \<noteq> t) (m / n))"

fun ext_val :: "float64 \<Rightarrow> (int \<times> rat) option" where
  \<comment> \<open>position on the extended line: \<open>-\<infinity>\<close>, a number, \<open>+\<infinity>\<close>; nothing for NaN\<close>
  "ext_val NaN = None"
| "ext_val (Infinity s) = Some (if s then - 1 else 1, 0)"
| "ext_val (Finite s m) = Some (0, signed s m)"

definition f_lt :: "float64 \<Rightarrow> float64 \<Rightarrow> bool" where
  "f_lt x y =
     (case (ext_val x, ext_val y) of
        (Some (a, u), Some (b, v)) \<Rightarrow> a < b \<or> (a = b \<and> u < v)
      | _ \<Rightarrow> False)"

definition f_eq :: "float64 \<Rightarrow> float64 \<Rightarrow> bool" where
  "f_eq x y =
     (case (ext_val x, ext_val y) of
        (Some (a, u), Some (b, v)) \<Rightarrow> a = b \<and> u = v
      | _ \<Rightarrow> False)"

definition f_le :: "float64 \<Rightarrow> float64 \<Rightarrow> bool" where
  "f_le x y = (f_lt x y \<or> f_eq x y)"

definition f_gt :: "float64 \<Rightarrow> float64 \<Rightarrow> bool" where
  "f_gt x y = f_lt y x"

definition f_ge :: "float64 \<Rightarrow> float64 \<Rightarrow> bool" where
  "f_ge x y = f_le y x"

definition f_ne :: "float64 \<Rightarrow> float64 \<Rightarrow> bool" where \<comment> \<open>\<^verbatim>\<open>!=\<close>: true when either side is NaN\<close>
  "f_ne x y = (\<not> f_eq x y)"

section \<open>The library functions the program calls\<close>

text \<open>
  \<^verbatim>\<open>strconv.ParseFloat\<close> and the \<^verbatim>\<open>%.Nf\<close> verb of \<^verbatim>\<open>fmt.Sprintf\<close> belong to the Go
  standard library, not to the repository. The program's functions take them as a
  parameter \<open>L\<close>; the theorems about the program hold for every such parameter.
  \<open>stdlib\<close> below is the instance that follows the library's documentation; the
  concrete runs use it.
\<close>

datatype parse_error = ErrSyntax | ErrRange

record lib =
  ParseFloat :: "string \<Rightarrow> float64 \<times> parse_error option"
  Sprintf_f :: "nat \<Rightarrow> float64 \<Rightarrow> string"

definition atof :: "lib \<Rightarrow> string \<Rightarrow> float64" where
  \<comment> \<open>\<^verbatim>\<open>v, _ := strconv.ParseFloat(s, 64)\<close>: the error is discarded\<close>
  "atof L s = fst (ParseFloat L s)"

subsection \<open>\<^verbatim>\<open>strconv.ParseFloat(s, 64)\<close>\<close>

definition digit_of :: "char \<Rightarrow> nat option" where
  "digit_of c =
     (let n = (of_char c :: nat) in if 48 \<le> n \<and> n \<le> 57 then Some (n - 48) else None)"

definition hexdigit_of :: "char \<Rightarrow> nat option" where
  "hexdigit_of c =
     (let n = (of_char c :: nat)
      in if 48 \<le> n \<and> n \<le> 57 then Some (n - 48)
         else if 97 \<le> n \<and> n \<le> 102 then Some (n - 87)
         else if 65 \<le> n \<and> n \<le> 70 then Some (n - 55)
         else None)"

definition to_lower :: "char \<Rightarrow> char" where
  "to_lower c =
     (let n = (of_char c :: nat) in if 65 \<le> n \<and> n \<le> 90 then char_of (n + 32) else c)"

fun commonPrefixLenIgnoreCase :: "string \<Rightarrow> string \<Rightarrow> nat" where
  "commonPrefixLenIgnoreCase (c # s) (p # prefix) =
     (if to_lower c = p then Suc (commonPrefixLenIgnoreCase s prefix) else 0)"
| "commonPrefixLenIgnoreCase s prefix = 0"

definition inf_prefix :: "bool \<Rightarrow> string \<Rightarrow> (float64 \<times> string) option" where
  "inf_prefix neg s =
     (let n = commonPrefixLenIgnoreCase s ''infinity'';
          n' = (if 3 < n \<and> n < 8 then 3 else n)
      in if n' = 3 \<or> n' = 8 then Some (Infinity neg, drop n' s) else None)"

definition special :: "string \<Rightarrow> (float64 \<times> string) option" where
  \<comment> \<open>the special value a text starts with, and the rest of the text\<close>
  "special s =
     (case s of
        [] \<Rightarrow> None
      | c # cs \<Rightarrow>
          if c = CHR ''+'' \<or> c = CHR ''-'' then inf_prefix (c = CHR ''-'') cs
          else if c = CHR ''i'' \<or> c = CHR ''I'' then inf_prefix False s
          else if c = CHR ''n'' \<or> c = CHR ''N'' then
            (if commonPrefixLenIgnoreCase s ''nan'' = 3 then Some (NaN, drop 3 s) else None)
          else None)"

fun scan_mantissa ::
  "nat \<Rightarrow> nat \<times> nat \<times> bool \<times> bool \<times> bool \<Rightarrow> string \<Rightarrow> (nat \<times> nat \<times> bool \<times> bool \<times> bool) \<times> string" where
  \<comment> \<open>state: digits read as a number, digits after the point, saw a point, saw a digit,
      saw an underscore\<close>
  "scan_mantissa base st [] = (st, [])"
| "scan_mantissa base (m, fr, dot, dig, us) (c # cs) =
     (if c = CHR ''_'' then scan_mantissa base (m, fr, dot, dig, True) cs
      else if c = CHR ''.'' then
        (if dot then ((m, fr, dot, dig, us), c # cs)
         else scan_mantissa base (m, fr, True, dig, us) cs)
      else
        (case (if base = 16 then hexdigit_of c else digit_of c) of
           Some d \<Rightarrow>
             scan_mantissa base (m * base + d, if dot then Suc fr else fr, dot, True, us) cs
         | None \<Rightarrow> ((m, fr, dot, dig, us), c # cs)))"

fun scan_exp :: "nat \<Rightarrow> bool \<Rightarrow> string \<Rightarrow> nat \<times> bool \<times> string" where
  "scan_exp e us [] = (e, us, [])"
| "scan_exp e us (c # cs) =
     (if c = CHR ''_'' then scan_exp e True cs
      else
        (case digit_of c of
           Some d \<Rightarrow> scan_exp (if e < 10000 then e * 10 + d else e) us cs
         | None \<Rightarrow> (e, us, c # cs)))"

definition scale :: "nat \<Rightarrow> bool \<Rightarrow> nat \<Rightarrow> rat" where
  \<comment> \<open>\<open>b\<^sup>e\<close> or \<open>b\<^sup>-\<^sup>e\<close>\<close>
  "scale b neg e = (if neg then 1 / of_nat (b ^ e) else of_nat (b ^ e))"

definition readFloat :: "string \<Rightarrow> (bool \<times> rat \<times> bool \<times> string) option" where
  \<comment> \<open>sign, exact magnitude, whether an underscore was read, the text left over;
      \<open>None\<close> when no number can be read\<close>
  "readFloat s =
     (let (neg, s1) =
            (case s of
               [] \<Rightarrow> (False, s)
             | c # cs \<Rightarrow>
                 if c = CHR ''+'' then (False, cs)
                 else if c = CHR ''-'' then (True, cs)
                 else (False, s));
          hex =
            (case s1 of
               c0 # c1 # _ # _ \<Rightarrow> c0 = CHR ''0'' \<and> (c1 = CHR ''x'' \<or> c1 = CHR ''X'')
             | _ \<Rightarrow> False);
          base = (if hex then 16 else 10 :: nat);
          ((m, fr, dot, dig, us), s2) =
            scan_mantissa base (0, 0, False, False, False) (if hex then drop 2 s1 else s1);
          q = of_nat m / of_nat (base ^ fr)
      in if \<not> dig then None
         else
           (case s2 of
              [] \<Rightarrow> if hex then None else Some (neg, q, us, s2)
            | c # s3 \<Rightarrow>
                if (if hex then c = CHR ''p'' \<or> c = CHR ''P'' else c = CHR ''e'' \<or> c = CHR ''E'')
                then
                  (case s3 of
                     [] \<Rightarrow> None
                   | d # s4 \<Rightarrow>
                       let (eneg, s5) =
                             (if d = CHR ''+'' then (False, s4)
                              else if d = CHR ''-'' then (True, s4)
                              else (False, s3))
                       in (case s5 of
                             [] \<Rightarrow> None
                           | d0 # _ \<Rightarrow>
                               if digit_of d0 = None then None
                               else
                                 (let (e, us', rest) = scan_exp 0 us s5
                                  in Some (neg, q * scale (if hex then 2 else 10) eneg e,
                                           us', rest))))
                else if hex then None
                else Some (neg, q, us, s2)))"

fun underscore_scan :: "bool \<Rightarrow> char \<Rightarrow> string \<Rightarrow> bool" where
  "underscore_scan hex saw [] = (saw \<noteq> CHR ''_'')"
| "underscore_scan hex saw (c # cs) =
     (if digit_of c \<noteq> None \<or> (hex \<and> hexdigit_of c \<noteq> None) then
        underscore_scan hex (CHR ''0'') cs
      else if c = CHR ''_'' then
        (if saw \<noteq> CHR ''0'' then False else underscore_scan hex (CHR ''_'') cs)
      else if saw = CHR ''_'' then False
      else underscore_scan hex (CHR ''!'') cs)"

definition underscoreOK :: "string \<Rightarrow> bool" where
  "underscoreOK s =
     (let s1 = (case s of
                  [] \<Rightarrow> s
                | c # cs \<Rightarrow> if c = CHR ''-'' \<or> c = CHR ''+'' then cs else s);
          pre = (case s1 of
                   c0 # c1 # _ \<Rightarrow> c0 = CHR ''0'' \<and> to_lower c1 \<in> set ''box''
                 | _ \<Rightarrow> False);
          hex = (case s1 of
                   c0 # c1 # _ \<Rightarrow> c0 = CHR ''0'' \<and> to_lower c1 = CHR ''x''
                 | _ \<Rightarrow> False)
      in underscore_scan hex (if pre then CHR ''0'' else CHR ''^'') (if pre then drop 2 s1 else s1))"

definition strconv_ParseFloat :: "string \<Rightarrow> float64 \<times> parse_error option" where
  "strconv_ParseFloat s =
     (case special s of
        Some (v, rest) \<Rightarrow> if rest = [] then (v, None) else (f_zero, Some ErrSyntax)
      | None \<Rightarrow>
          (case readFloat s of
             None \<Rightarrow> (f_zero, Some ErrSyntax)
           | Some (neg, q, us, rest) \<Rightarrow>
               if us \<and> \<not> underscoreOK (take (length s - length rest) s) then
                 (f_zero, Some ErrSyntax)
               else if rest \<noteq> [] then (f_zero, Some ErrSyntax)
               else
                 (case round64 q of
                    None \<Rightarrow> (Infinity neg, Some ErrRange)
                  | Some v \<Rightarrow> (Finite neg v, None))))"

subsection \<open>\<^verbatim>\<open>fmt.Sprintf\<close> verbs\<close>

definition digit_char :: "nat \<Rightarrow> char" where
  "digit_char d = char_of (48 + d)"

function show_nat :: "nat \<Rightarrow> string" where
  "show_nat n = (if n < 10 then [digit_char n] else show_nat (n div 10) @ [digit_char (n mod 10)])"
  by pat_completeness auto
termination
  by (relation "measure id") auto

definition show_int :: "int \<Rightarrow> string" where \<comment> \<open>the verb \<^verbatim>\<open>%d\<close>\<close>
  "show_int i = (if i < 0 then ''-'' @ show_nat (nat (- i)) else show_nat (nat i))"

definition fmt_f :: "nat \<Rightarrow> float64 \<Rightarrow> string" where \<comment> \<open>the verb \<^verbatim>\<open>%.Nf\<close>\<close>
  "fmt_f prec x =
     (case x of
        NaN \<Rightarrow> ''NaN''
      | Infinity s \<Rightarrow> (if s then ''-Inf'' else ''+Inf'')
      | Finite s m \<Rightarrow>
          (let n = nat (round_half_even (m * 10 ^ prec));
               frac = show_nat (n mod 10 ^ prec)
           in (if s then ''-'' else []) @ show_nat (n div 10 ^ prec) @
              (if prec = 0 then []
               else ''.'' @ replicate (prec - length frac) (CHR ''0'') @ frac)))"

definition stdlib :: lib where
  "stdlib = \<lparr>ParseFloat = strconv_ParseFloat, Sprintf_f = fmt_f\<rparr>"

section \<open>Text literals\<close>

text \<open>
  Go strings are byte sequences; the literals of the source are given here as their
  UTF-8 bytes.
\<close>

definition nl :: string where
  "nl = [CHR 0x0A]"

definition txt_change_title :: string where \<comment> \<open>title of a position-change report\<close>
  "txt_change_title =
     [CHR 0xF0, CHR 0x9F, CHR 0x94, CHR 0x84] @ '' HyperLiquid'' @
     [CHR 0xE6, CHR 0x8C, CHR 0x81, CHR 0xE4, CHR 0xBB, CHR 0x93] @
     [CHR 0xE5, CHR 0x8F, CHR 0x98, CHR 0xE5, CHR 0x8C, CHR 0x96] @ '' - ''"

definition txt_account_title :: string where \<comment> \<open>title of an account-value report\<close>
  "txt_account_title =
     [CHR 0xF0, CHR 0x9F, CHR 0x94, CHR 0x84] @ '' HyperLiquid'' @
     [CHR 0xE8, CHR 0xB4, CHR 0xA6, CHR 0xE6, CHR 0x88, CHR 0xB7] @
     [CHR 0xE4, CHR 0xBB, CHR 0xB7, CHR 0xE5, CHR 0x80, CHR 0xBC] @
     [CHR 0xE5, CHR 0x8F, CHR 0x98, CHR 0xE5, CHR 0x8C, CHR 0x96] @ '' - ''"

definition txt_initial_title :: string where \<comment> \<open>title of the initial status message\<close>
  "txt_initial_title =
     [CHR 0xF0, CHR 0x9F, CHR 0x94, CHR 0x84] @ '' HyperLiquid'' @
     [CHR 0xE5, CHR 0x88, CHR 0x9D, CHR 0xE5, CHR 0xA7, CHR 0x8B] @
     [CHR 0xE6, CHR 0x8C, CHR 0x81, CHR 0xE4, CHR 0xBB, CHR 0x93] @
     [CHR 0xE7, CHR 0x8A, CHR 0xB6, CHR 0xE6, CHR 0x80, CHR 0x81] @ '' - ''"

definition txt_address :: string where \<comment> \<open>label: account address\<close>
  "txt_address =
     [CHR 0xF0, CHR 0x9F, CHR 0x92, CHR 0xBC] @ '' '' @
     [CHR 0xE8, CHR 0xB4, CHR 0xA6, CHR 0xE6, CHR 0x88, CHR 0xB7] @
     [CHR 0xE5, CHR 0x9C, CHR 0xB0, CHR 0xE5, CHR 0x9D, CHR 0x80] @ '': ''"

definition txt_account_value :: string where \<comment> \<open>label: account value\<close>
  "txt_account_value =
     [CHR 0xF0, CHR 0x9F, CHR 0x92, CHR 0xB0] @ '' '' @
     [CHR 0xE8, CHR 0xB4, CHR 0xA6, CHR 0xE6, CHR 0x88, CHR 0xB7] @
     [CHR 0xE4, CHR 0xBB, CHR 0xB7, CHR 0xE5, CHR 0x80, CHR 0xBC] @ '': $''"

definition txt_opened :: string where \<comment> \<open>label: newly opened position\<close>
  "txt_opened =
     [CHR 0xF0, CHR 0x9F, CHR 0x86, CHR 0x95] @ '' '' @
     [CHR 0xE6, CHR 0x96, CHR 0xB0, CHR 0xE5, CHR 0xBC, CHR 0x80] @
     [CHR 0xE4, CHR 0xBB, CHR 0x93, CHR 0xE4, CHR 0xBD, CHR 0x8D] @ '': ''"

definition txt_increased :: string where \<comment> \<open>label: position increased\<close>
  "txt_increased =
     [CHR 0xF0, CHR 0x9F, CHR 0x93, CHR 0x88] @ '' '' @
     [CHR 0xE4, CHR 0xBB, CHR 0x93, CHR 0xE4, CHR 0xBD, CHR 0x8D] @
     [CHR 0xE5, CHR 0xA2, CHR 0x9E, CHR 0xE5, CHR 0x8A, CHR 0xA0] @ '': ''"

definition txt_decreased :: string where \<comment> \<open>label: position decreased\<close>
  "txt_decreased =
     [CHR 0xF0, CHR 0x9F, CHR 0x93, CHR 0x89] @ '' '' @
     [CHR 0xE4, CHR 0xBB, CHR 0x93, CHR 0xE4, CHR 0xBD, CHR 0x8D] @
     [CHR 0xE5, CHR 0x87, CHR 0x8F, CHR 0xE5, CHR 0xB0, CHR 0x91] @ '': ''"

definition txt_from :: string where \<comment> \<open>label: from\<close>
  "txt_from =
     ''   '' @ [CHR 0xE4, CHR 0xBB, CHR 0x8E] @ '': ''"

definition txt_to :: string where \<comment> \<open>label: to\<close>
  "txt_to =
     ''   '' @ [CHR 0xE5, CHR 0x88, CHR 0xB0] @ '': ''"

definition txt_change :: string where \<comment> \<open>label: change\<close>
  "txt_change =
     ''   '' @ [CHR 0xE5, CHR 0x8F, CHR 0x98, CHR 0xE5, CHR 0x8C, CHR 0x96] @ '': ''"

definition txt_closed :: string where \<comment> \<open>label: closed position\<close>
  "txt_closed =
     [CHR 0xE2, CHR 0x9D, CHR 0x8C] @ '' '' @
     [CHR 0xE5, CHR 0xB7, CHR 0xB2, CHR 0xE5, CHR 0x85, CHR 0xB3] @
     [CHR 0xE9, CHR 0x97, CHR 0xAD, CHR 0xE4, CHR 0xBB, CHR 0x93] @
     [CHR 0xE4, CHR 0xBD, CHR 0x8D] @ '': ''"

definition txt_long :: string where \<comment> \<open>direction: long\<close>
  "txt_long =
     [CHR 0xE5, CHR 0xA4, CHR 0x9A, CHR 0xE5, CHR 0xA4, CHR 0xB4]"

definition txt_short :: string where \<comment> \<open>direction: short\<close>
  "txt_short =
     [CHR 0xE7, CHR 0xA9, CHR 0xBA, CHR 0xE5, CHR 0xA4, CHR 0xB4]"

definition txt_size :: string where \<comment> \<open>label: position size\<close>
  "txt_size =
     [CHR 0xF0, CHR 0x9F, CHR 0x93, CHR 0x88] @ '' '' @
     [CHR 0xE4, CHR 0xBB, CHR 0x93, CHR 0xE4, CHR 0xBD, CHR 0x8D] @
     [CHR 0xE5, CHR 0xA4, CHR 0xA7, CHR 0xE5, CHR 0xB0, CHR 0x8F] @ '': ''"

definition txt_plain_size :: string where \<comment> \<open>label: position size (closed position)\<close>
  "txt_plain_size =
     ''   '' @ [CHR 0xE4, CHR 0xBB, CHR 0x93, CHR 0xE4, CHR 0xBD, CHR 0x8D] @
     [CHR 0xE5, CHR 0xA4, CHR 0xA7, CHR 0xE5, CHR 0xB0, CHR 0x8F] @ '': ''"

definition txt_entry :: string where \<comment> \<open>label: entry price\<close>
  "txt_entry =
     [CHR 0xF0, CHR 0x9F, CHR 0x8F, CHR 0xB7, CHR 0xEF, CHR 0xB8, CHR 0x8F] @ '' '' @
     [CHR 0xE5, CHR 0x85, CHR 0xA5, CHR 0xE5, CHR 0x9C, CHR 0xBA] @
     [CHR 0xE4, CHR 0xBB, CHR 0xB7, CHR 0xE6, CHR 0xA0, CHR 0xBC] @ '': $''"

definition txt_leverage :: string where \<comment> \<open>label: leverage\<close>
  "txt_leverage =
     [CHR 0xF0, CHR 0x9F, CHR 0x93, CHR 0x8A] @ '' '' @
     [CHR 0xE6, CHR 0x9D, CHR 0xA0, CHR 0xE6, CHR 0x9D, CHR 0x86] @ '': ''"

definition txt_pnl :: string where \<comment> \<open>label: profit and loss\<close>
  "txt_pnl =
     '' '' @ [CHR 0xE7, CHR 0x9B, CHR 0x88, CHR 0xE4, CHR 0xBA, CHR 0x8F] @ '': $''"

definition txt_red :: string where \<comment> \<open>marker: negative\<close>
  "txt_red =
     [CHR 0xF0, CHR 0x9F, CHR 0x94, CHR 0xB4]"

definition txt_green :: string where \<comment> \<open>marker: non-negative\<close>
  "txt_green =
     [CHR 0xF0, CHR 0x9F, CHR 0x9F, CHR 0xA2]"

definition txt_liquidation :: string where \<comment> \<open>label: liquidation price\<close>
  "txt_liquidation =
     [CHR 0xE2, CHR 0x9A, CHR 0xA0, CHR 0xEF, CHR 0xB8, CHR 0x8F] @ '' '' @
     [CHR 0xE5, CHR 0xBC, CHR 0xBA, CHR 0xE5, CHR 0xB9, CHR 0xB3] @
     [CHR 0xE4, CHR 0xBB, CHR 0xB7, CHR 0xE6, CHR 0xA0, CHR 0xBC] @ '': $''"

definition txt_margin :: string where \<comment> \<open>label: margin used\<close>
  "txt_margin =
     [CHR 0xF0, CHR 0x9F, CHR 0x92, CHR 0xB8] @ '' '' @
     [CHR 0xE5, CHR 0xB7, CHR 0xB2, CHR 0xE7, CHR 0x94, CHR 0xA8] @
     [CHR 0xE4, CHR 0xBF, CHR 0x9D, CHR 0xE8, CHR 0xAF, CHR 0x81] @
     [CHR 0xE9, CHR 0x87, CHR 0x91] @ '': $''"

definition txt_positions :: string where \<comment> \<open>heading: current positions\<close>
  "txt_positions =
     [CHR 0xF0, CHR 0x9F, CHR 0x93, CHR 0x8A] @ '' '' @
     [CHR 0xE5, CHR 0xBD, CHR 0x93, CHR 0xE5, CHR 0x89, CHR 0x8D] @
     [CHR 0xE6, CHR 0x8C, CHR 0x81, CHR 0xE4, CHR 0xBB, CHR 0x93] @ '':'' @
     [CHR 0x0A, CHR 0x0A]"

definition txt_no_positions :: string where \<comment> \<open>text: no open positions\<close>
  "txt_no_positions =
     [CHR 0xE6, CHR 0xB2, CHR 0xA1, CHR 0xE6, CHR 0x9C, CHR 0x89] @
     [CHR 0xE6, CHR 0x89, CHR 0xBE, CHR 0xE5, CHR 0x88, CHR 0xB0] @
     [CHR 0xE5, CHR 0xBC, CHR 0x80, CHR 0xE6, CHR 0x94, CHR 0xBE] @
     [CHR 0xE7, CHR 0x9A, CHR 0x84, CHR 0xE6, CHR 0x8C, CHR 0x81] @
     [CHR 0xE4, CHR 0xBB, CHR 0x93, CHR 0xE3, CHR 0x80, CHR 0x82] @ [CHR 0x0A]"

definition txt_started :: string where \<comment> \<open>text: monitoring started\<close>
  "txt_started =
     [CHR 0xF0, CHR 0x9F, CHR 0x94, CHR 0x94] @ '' '' @
     [CHR 0xE6, CHR 0x8C, CHR 0x81, CHR 0xE4, CHR 0xBB, CHR 0x93] @
     [CHR 0xE7, CHR 0x9B, CHR 0x91, CHR 0xE6, CHR 0x8E, CHR 0xA7] @
     [CHR 0xE5, CHR 0xB7, CHR 0xB2, CHR 0xE5, CHR 0x90, CHR 0xAF] @
     [CHR 0xE5, CHR 0x8A, CHR 0xA8, CHR 0xEF, CHR 0xBC, CHR 0x8C] @
     [CHR 0xE5, CHR 0xB0, CHR 0x86, CHR 0xE5, CHR 0x9C, CHR 0xA8] @
     [CHR 0xE4, CHR 0xBB, CHR 0x93, CHR 0xE4, CHR 0xBD, CHR 0x8D] @
     [CHR 0xE5, CHR 0x8F, CHR 0x98, CHR 0xE5, CHR 0x8C, CHR 0x96] @
     [CHR 0xE6, CHR 0x97, CHR 0xB6, CHR 0xE5, CHR 0x8F, CHR 0x91] @
     [CHR 0xE9, CHR 0x80, CHR 0x81, CHR 0xE9, CHR 0x80, CHR 0x9A] @
     [CHR 0xE7, CHR 0x9F, CHR 0xA5, CHR 0xE3, CHR 0x80, CHR 0x82]"

definition txt_coin :: string where \<comment> \<open>marker: coin\<close>
  "txt_coin =
     [CHR 0xF0, CHR 0x9F, CHR 0xAA, CHR 0x99] @ '' ''"

definition txt_value_change :: string where \<comment> \<open>label: account value change\<close>
  "txt_value_change =
     '' '' @ [CHR 0xE8, CHR 0xB4, CHR 0xA6, CHR 0xE6, CHR 0x88, CHR 0xB7] @
     [CHR 0xE4, CHR 0xBB, CHR 0xB7, CHR 0xE5, CHR 0x80, CHR 0xBC] @
     [CHR 0xE5, CHR 0x8F, CHR 0x98, CHR 0xE5, CHR 0x8C, CHR 0x96] @ '':'' @ [CHR 0x0A]"

definition txt_from_usd :: string where \<comment> \<open>label: from (amount)\<close>
  "txt_from_usd =
     ''   '' @ [CHR 0xE4, CHR 0xBB, CHR 0x8E] @ '': $''"

definition txt_to_usd :: string where \<comment> \<open>label: to (amount)\<close>
  "txt_to_usd =
     ''   '' @ [CHR 0xE5, CHR 0x88, CHR 0xB0] @ '': $''"

definition txt_change_usd :: string where \<comment> \<open>label: change (amount)\<close>
  "txt_change_usd =
     ''   '' @ [CHR 0xE5, CHR 0x8F, CHR 0x98, CHR 0xE5, CHR 0x8C, CHR 0x96] @ '': $''"

definition txt_summary :: string where \<comment> \<open>heading: summary of current positions\<close>
  "txt_summary =
     [CHR 0xF0, CHR 0x9F, CHR 0x93, CHR 0x8A] @ '' '' @
     [CHR 0xE5, CHR 0xBD, CHR 0x93, CHR 0xE5, CHR 0x89, CHR 0x8D] @
     [CHR 0xE6, CHR 0x8C, CHR 0x81, CHR 0xE4, CHR 0xBB, CHR 0x93] @
     [CHR 0xE6, CHR 0x91, CHR 0x98, CHR 0xE8, CHR 0xA6, CHR 0x81] @ '':'' @
     [CHR 0x0A, CHR 0x0A]"

definition txt_addr_prefix :: string where \<comment> \<open>word: address\<close>
  "txt_addr_prefix =
     [CHR 0xE5, CHR 0x9C, CHR 0xB0, CHR 0xE5, CHR 0x9D, CHR 0x80] @ '' ''"

definition txt_already :: string where \<comment> \<open>text: already subscribed\<close>
  "txt_already =
     '' '' @ [CHR 0xE5, CHR 0xB7, CHR 0xB2, CHR 0xE8, CHR 0xAE, CHR 0xA2] @
     [CHR 0xE9, CHR 0x98, CHR 0x85]"

definition txt_subscribed :: string where \<comment> \<open>text: subscribed to address\<close>
  "txt_subscribed =
     [CHR 0xE5, CHR 0xB7, CHR 0xB2, CHR 0xE8, CHR 0xAE, CHR 0xA2] @
     [CHR 0xE9, CHR 0x98, CHR 0x85, CHR 0xE5, CHR 0x9C, CHR 0xB0] @
     [CHR 0xE5, CHR 0x9D, CHR 0x80] @ '' ''"

definition txt_fetch_failed_a :: string where \<comment> \<open>text: fetching address\<close>
  "txt_fetch_failed_a =
     [CHR 0xE8, CHR 0x8E, CHR 0xB7, CHR 0xE5, CHR 0x8F, CHR 0x96] @
     [CHR 0xE5, CHR 0x9C, CHR 0xB0, CHR 0xE5, CHR 0x9D, CHR 0x80] @ '' ''"

definition txt_fetch_failed_b :: string where \<comment> \<open>text: initial state failed\<close>
  "txt_fetch_failed_b =
     '' '' @ [CHR 0xE5, CHR 0x88, CHR 0x9D, CHR 0xE5, CHR 0xA7, CHR 0x8B] @
     [CHR 0xE7, CHR 0x8A, CHR 0xB6, CHR 0xE6, CHR 0x80, CHR 0x81] @
     [CHR 0xE5, CHR 0xA4, CHR 0xB1, CHR 0xE8, CHR 0xB4, CHR 0xA5] @ '': ''"

definition txt_not_subscribed :: string where \<comment> \<open>text: is not subscribed\<close>
  "txt_not_subscribed =
     '' '' @ [CHR 0xE6, CHR 0x9C, CHR 0xAA, CHR 0xE8, CHR 0xA2, CHR 0xAB] @
     [CHR 0xE8, CHR 0xAE, CHR 0xA2, CHR 0xE9, CHR 0x98, CHR 0x85]"

definition txt_unsubscribed :: string where \<comment> \<open>text: unsubscribed from address\<close>
  "txt_unsubscribed =
     [CHR 0xE5, CHR 0xB7, CHR 0xB2, CHR 0xE5, CHR 0x8F, CHR 0x96] @
     [CHR 0xE6, CHR 0xB6, CHR 0x88, CHR 0xE8, CHR 0xAE, CHR 0xA2] @
     [CHR 0xE9, CHR 0x98, CHR 0x85, CHR 0xE5, CHR 0x9C, CHR 0xB0] @
     [CHR 0xE5, CHR 0x9D, CHR 0x80] @ '' ''"

section \<open>Data model\<close>

record Position =
  Coin :: string
  Szi :: string
  Leverage_Type :: string
  Leverage_Value :: int
  Leverage_RawUsd :: string
  EntryPx :: string
  PositionValue :: string
  UnrealizedPnl :: string
  ReturnOnEquity :: string
  LiquidationPx :: string
  MarginUsed :: string
  MaxLeverage :: int
  CumFunding_AllTime :: string
  CumFunding_SinceOpen :: string
  CumFunding_SinceChange :: string

record WalletConfig =
  Address :: string
  Name :: string
  ChatID :: string

text \<open>
  A \<^verbatim>\<open>map[string]Position\<close> is the list of its entries, keys distinct, in the order in
  which a \<^verbatim>\<open>range\<close> loop visits them. Go leaves that order open and may change it
  from one loop to the next, so a statement about a map is a statement about every
  listing of its entries.
\<close>

type_synonym positions = "(string \<times> Position) list"

record AccountState =
  LastPositions :: positions
  LastAccountValue :: float64

definition same_map :: "('k \<times> 'v) list \<Rightarrow> ('k \<times> 'v) list \<Rightarrow> bool" where
  \<comment> \<open>two listings of one map\<close>
  "same_map xs ys = (distinct (map fst xs) \<and> distinct (map fst ys) \<and> mset xs = mset ys)"

section \<open>Change detection and rendering (\<^verbatim>\<open>main.go\<close>)\<close>

definition shortenAddress :: "string \<Rightarrow> string" where
  "shortenAddress address =
     (if length address \<le> 10 then address
      else take 6 address @ ''...'' @ drop (length address - 4) address)"

definition addPositionDetails :: "lib \<Rightarrow> string \<Rightarrow> Position \<Rightarrow> string" where
  \<comment> \<open>the source appends to \<^verbatim>\<open>*message\<close>; the model returns the extended message\<close>
  "addPositionDetails L message position =
     (let szi = atof L (Szi position);
          entryPx = atof L (EntryPx position);
          posValue = atof L (PositionValue position);
          unrealizedPnl = atof L (UnrealizedPnl position);
          roi = atof L (ReturnOnEquity position);
          liquidationPx = atof L (LiquidationPx position);
          (direction, szi) =
            (if f_lt szi f_zero then (txt_short, f_neg szi) else (txt_long, szi));
          pnlEmoji = (if f_ge unrealizedPnl f_zero then txt_green else txt_red)
      in message @
         ''   '' @ Coin position @ '' ('' @ direction @ '')'' @ nl @
         ''   '' @ txt_size @ Sprintf_f L 5 szi @ '' ($'' @ Sprintf_f L 2 posValue @ '')'' @ nl @
         ''   '' @ txt_entry @ Sprintf_f L 2 entryPx @ nl @
         ''   '' @ txt_leverage @ show_int (Leverage_Value position) @ ''x'' @ nl @
         ''   '' @ pnlEmoji @ txt_pnl @ Sprintf_f L 2 unrealizedPnl @
           '' ('' @ Sprintf_f L 2 (f_mul roi f_hundred) @ [CHR 0x25] @ '')'' @ nl @
         ''   '' @ txt_liquidation @ Sprintf_f L 2 liquidationPx @ nl @ nl)"

definition changes_header :: "WalletConfig \<Rightarrow> string \<Rightarrow> string" where
  "changes_header wallet timeStamp =
     txt_change_title @ Name wallet @ '' ('' @ timeStamp @ '')'' @ nl @ nl @
     txt_address @ shortenAddress (Address wallet) @ nl @ nl"

definition sziChangePercent :: "float64 \<Rightarrow> float64 \<Rightarrow> float64" where
  "sziChangePercent currentSzi lastSzi =
     (if f_ne lastSzi f_zero
      then f_mul (f_abs (f_div (f_sub currentSzi lastSzi) lastSzi)) f_hundred
      else f_zero)"

fun detect_current_loop ::
  "lib \<Rightarrow> WalletConfig \<Rightarrow> string \<Rightarrow> positions \<Rightarrow> positions \<Rightarrow> string \<Rightarrow> string" where
  \<comment> \<open>\<^verbatim>\<open>for coin, current := range currentPositions\<close>, on the entries still to visit\<close>
  "detect_current_loop L wallet timeStamp lastPositions [] changes = changes"
| "detect_current_loop L wallet timeStamp lastPositions ((coin, current) # rest) changes =
     (case map_of lastPositions coin of
        None \<Rightarrow>
          detect_current_loop L wallet timeStamp lastPositions rest
            (addPositionDetails L
               ((if changes = [] then changes_header wallet timeStamp else changes) @
                txt_opened @ coin @ nl)
               current)
      | Some lastP \<Rightarrow>
          (let currentSzi = atof L (Szi current);
               lastSzi = atof L (Szi lastP);
               pct = sziChangePercent currentSzi lastSzi
           in if f_ge pct f_one then
                detect_current_loop L wallet timeStamp lastPositions rest
                  ((if changes = [] then changes_header wallet timeStamp else changes) @
                   (if f_gt (f_abs currentSzi) (f_abs lastSzi)
                    then txt_increased @ coin @ nl
                    else txt_decreased @ coin @ nl) @
                   txt_from @ Sprintf_f L 5 lastSzi @ nl @
                   txt_to @ Sprintf_f L 5 currentSzi @ nl @
                   txt_change @ Sprintf_f L 2 pct @ [CHR 0x25] @ nl @ nl)
              else detect_current_loop L wallet timeStamp lastPositions rest changes))"

fun detect_closed_loop ::
  "WalletConfig \<Rightarrow> string \<Rightarrow> positions \<Rightarrow> positions \<Rightarrow> string \<Rightarrow> string" where
  \<comment> \<open>\<^verbatim>\<open>for coin := range state.LastPositions\<close>, on the entries still to visit\<close>
  "detect_closed_loop wallet timeStamp currentPositions [] changes = changes"
| "detect_closed_loop wallet timeStamp currentPositions ((coin, lastP) # rest) changes =
     (case map_of currentPositions coin of
        None \<Rightarrow>
          detect_closed_loop wallet timeStamp currentPositions rest
            ((if changes = [] then changes_header wallet timeStamp else changes) @
             txt_closed @ coin @ nl @ nl)
      | Some current \<Rightarrow> detect_closed_loop wallet timeStamp currentPositions rest changes)"

definition detectPositionChanges ::
  "lib \<Rightarrow> string \<Rightarrow> WalletConfig \<Rightarrow> positions \<Rightarrow> float64 \<Rightarrow> AccountState \<Rightarrow> string" where
  \<comment> \<open>the second argument is what \<^verbatim>\<open>time.Now().Format(...)\<close> returns in this call\<close>
  "detectPositionChanges L timeStamp wallet currentPositions currentAccountValue state =
     detect_closed_loop wallet timeStamp currentPositions (LastPositions state)
       (detect_current_loop L wallet timeStamp (LastPositions state) currentPositions [])"

subsection \<open>The events of a report\<close>

text \<open>
  The report is a text. The events it announces are read off the same two loops:
  an opened position, a resized one (direction, previous size, current size, change
  in percent) and a closed one.
\<close>

datatype direction = Increased | Decreased

datatype event =
    Opened string Position
  | Resized string direction float64 float64 float64
  | Closed string Position

fun current_events :: "lib \<Rightarrow> positions \<Rightarrow> positions \<Rightarrow> event list" where
  "current_events L lastPositions [] = []"
| "current_events L lastPositions ((coin, current) # rest) =
     (case map_of lastPositions coin of
        None \<Rightarrow> Opened coin current # current_events L lastPositions rest
      | Some lastP \<Rightarrow>
          (let currentSzi = atof L (Szi current);
               lastSzi = atof L (Szi lastP);
               pct = sziChangePercent currentSzi lastSzi
           in if f_ge pct f_one then
                Resized coin
                  (if f_gt (f_abs currentSzi) (f_abs lastSzi) then Increased else Decreased)
                  lastSzi currentSzi pct # current_events L lastPositions rest
              else current_events L lastPositions rest))"

fun closed_events :: "positions \<Rightarrow> positions \<Rightarrow> event list" where
  "closed_events currentPositions [] = []"
| "closed_events currentPositions ((coin, lastP) # rest) =
     (case map_of currentPositions coin of
        None \<Rightarrow> Closed coin lastP # closed_events currentPositions rest
      | Some current \<Rightarrow> closed_events currentPositions rest)"

definition position_events :: "lib \<Rightarrow> positions \<Rightarrow> AccountState \<Rightarrow> event list" where
  "position_events L currentPositions state =
     current_events L (LastPositions state) currentPositions @
     closed_events currentPositions (LastPositions state)"

fun render_event :: "lib \<Rightarrow> event \<Rightarrow> string" where
  "render_event L (Opened coin current) =
     addPositionDetails L (txt_opened @ coin @ nl) current"
| "render_event L (Resized coin d lastSzi currentSzi pct) =
     (case d of Increased \<Rightarrow> txt_increased | Decreased \<Rightarrow> txt_decreased) @ coin @ nl @
     txt_from @ Sprintf_f L 5 lastSzi @ nl @
     txt_to @ Sprintf_f L 5 currentSzi @ nl @
     txt_change @ Sprintf_f L 2 pct @ [CHR 0x25] @ nl @ nl"
| "render_event L (Closed coin lastP) = txt_closed @ coin @ nl @ nl"

definition render_report :: "lib \<Rightarrow> string \<Rightarrow> WalletConfig \<Rightarrow> event list \<Rightarrow> string" where
  "render_report L timeStamp wallet evs =
     (if evs = [] then []
      else changes_header wallet timeStamp @ concat (map (render_event L) evs))"

section \<open>Sample data for the concrete runs\<close>

definition sample_position :: "string \<Rightarrow> string \<Rightarrow> Position" where
  "sample_position coin szi =
     \<lparr>Coin = coin, Szi = szi, Leverage_Type = ''cross'', Leverage_Value = 5,
      Leverage_RawUsd = ''0'', EntryPx = ''100.5'', PositionValue = ''1005'',
      UnrealizedPnl = ''-2.5'', ReturnOnEquity = ''0.0125'', LiquidationPx = ''50'',
      MarginUsed = ''201'', MaxLeverage = 50, CumFunding_AllTime = ''0'',
      CumFunding_SinceOpen = ''0'', CumFunding_SinceChange = ''0''\<rparr>"

definition sample_wallet :: WalletConfig where
  "sample_wallet = \<lparr>Address = ''0x1234567890abcdef'', Name = ''main'', ChatID = ''42''\<rparr>"

definition empty_state :: AccountState where
  \<comment> \<open>the baseline of a new address\<close>
  "empty_state = \<lparr>LastPositions = [], LastAccountValue = f_zero\<rparr>"

section \<open>The report is the rendering of its events\<close>

lemma header_nonempty: "changes_header w ts \<noteq> []"
  by (simp add: changes_header_def txt_change_title_def)

lemma addPositionDetails_append:
  "addPositionDetails L (a @ b) p = a @ addPositionDetails L b p"
  by (simp add: addPositionDetails_def Let_def split: prod.splits)

lemma render_report_snoc:
  "(if render_report L ts w evs = [] then changes_header w ts else render_report L ts w evs)
     @ render_event L e = render_report L ts w (evs @ [e])"
  by (cases "evs = []") (simp_all add: render_report_def header_nonempty)

lemma current_loop_opened:
  "map_of lst coin = None \<Longrightarrow>
   detect_current_loop L w ts lst ((coin, c) # cur) changes =
   detect_current_loop L w ts lst cur
     ((if changes = [] then changes_header w ts else changes) @ render_event L (Opened coin c))"
  by (simp add: addPositionDetails_append)

lemma current_loop_resized:
  "map_of lst coin = Some l \<Longrightarrow>
   f_ge (sziChangePercent (atof L (Szi c)) (atof L (Szi l))) f_one \<Longrightarrow>
   detect_current_loop L w ts lst ((coin, c) # cur) changes =
   detect_current_loop L w ts lst cur
     ((if changes = [] then changes_header w ts else changes) @
      render_event L
        (Resized coin
           (if f_gt (f_abs (atof L (Szi c))) (f_abs (atof L (Szi l)))
            then Increased else Decreased)
           (atof L (Szi l)) (atof L (Szi c))
           (sziChangePercent (atof L (Szi c)) (atof L (Szi l)))))"
  by (cases "f_gt (f_abs (atof L (Szi c))) (f_abs (atof L (Szi l)))") (simp_all add: Let_def)

lemma current_loop_same:
  "map_of lst coin = Some l \<Longrightarrow>
   \<not> f_ge (sziChangePercent (atof L (Szi c)) (atof L (Szi l))) f_one \<Longrightarrow>
   detect_current_loop L w ts lst ((coin, c) # cur) changes =
   detect_current_loop L w ts lst cur changes"
  by (simp add: Let_def)

lemma current_loop_events:
  "detect_current_loop L w ts lst cur (render_report L ts w evs)
     = render_report L ts w (evs @ current_events L lst cur)"
proof (induction cur arbitrary: evs)
  case Nil
  then show ?case by simp
next
  case (Cons a cur)
  obtain coin c where a: "a = (coin, c)" by (cases a)
  show ?case
  proof (cases "map_of lst coin")
    case None
    show ?thesis
      unfolding a current_loop_opened[OF None] render_report_snoc Cons.IH
      using None by simp
  next
    case (Some l)
    show ?thesis
    proof (cases "f_ge (sziChangePercent (atof L (Szi c)) (atof L (Szi l))) f_one")
      case True
      show ?thesis
        unfolding a current_loop_resized[OF Some True] render_report_snoc Cons.IH
        using Some True by (simp add: Let_def)
    next
      case False
      show ?thesis
        unfolding a current_loop_same[OF Some False] Cons.IH
        using Some False by (simp add: Let_def)
    qed
  qed
qed

lemma closed_loop_closed:
  "map_of cur coin = None \<Longrightarrow>
   detect_closed_loop w ts cur ((coin, l) # lst) changes =
   detect_closed_loop w ts cur lst
     ((if changes = [] then changes_header w ts else changes) @ render_event L (Closed coin l))"
  by simp

lemma closed_loop_events:
  "detect_closed_loop w ts cur lst (render_report L ts w evs)
     = render_report L ts w (evs @ closed_events cur lst)"
proof (induction lst arbitrary: evs)
  case Nil
  then show ?case by simp
next
  case (Cons a lst)
  obtain coin l where a: "a = (coin, l)" by (cases a)
  show ?case
  proof (cases "map_of cur coin")
    case None
    show ?thesis
      unfolding a closed_loop_closed[OF None, of w ts l lst _ L] render_report_snoc Cons.IH
      using None by simp
  next
    case (Some c)
    then show ?thesis using Cons.IH[of evs] by (simp add: a)
  qed
qed

lemma detect_is_render:
  "detectPositionChanges L ts w cur v st = render_report L ts w (position_events L cur st)"
proof -
  have e: "render_report L ts w [] = []" by (simp add: render_report_def)
  show ?thesis
    unfolding detectPositionChanges_def position_events_def
    using current_loop_events[of L w ts "LastPositions st" cur "[]"]
          closed_loop_events[of w ts cur "LastPositions st" L
            "current_events L (LastPositions st) cur"]
    by (simp add: e)
qed

lemma render_report_empty_iff: "render_report L ts w evs = [] \<longleftrightarrow> evs = []"
  by (simp add: render_report_def header_nonempty)

lemma detect_empty_iff:
  "detectPositionChanges L ts w cur v st = [] \<longleftrightarrow> position_events L cur st = []"
  by (simp add: detect_is_render render_report_empty_iff)

section \<open>A new address: every open position is reported as opened\<close>

lemma current_events_no_last:
  "current_events L [] cur = map (\<lambda>(coin, p). Opened coin p) cur"
  by (induction cur) auto

text \<open>
  Claim C3. When the previous state of an address has no positions (the baseline of a
  new address) and the current snapshot is not empty, the events of the report are
  exactly one \<open>Opened\<close> event for each entry of the snapshot, in the order the loop
  visits them, and nothing else: no \<open>Resized\<close> and no \<open>Closed\<close> event. The text
  returned is the rendering of these events.
\<close>

theorem new_address_all_opened:
  assumes "LastPositions st = []" and "distinct (map fst cur)" and "cur \<noteq> []"
  shows "position_events L cur st = map (\<lambda>(coin, p). Opened coin p) cur \<and>
         detectPositionChanges L ts w cur v st =
           render_report L ts w (map (\<lambda>(coin, p). Opened coin p) cur)"
proof -
  have "position_events L cur st = map (\<lambda>(coin, p). Opened coin p) cur"
    using assms(1) by (simp add: position_events_def current_events_no_last)
  then show ?thesis by (simp add: detect_is_render)
qed

theorem new_address_all_opened_witness:
  "position_events stdlib
     [(''BTC'', sample_position ''BTC'' ''0.5''), (''ETH'', sample_position ''ETH'' ''-3'')]
     empty_state =
   [Opened ''BTC'' (sample_position ''BTC'' ''0.5''),
    Opened ''ETH'' (sample_position ''ETH'' ''-3'')]"
  using new_address_all_opened
    [of empty_state
        "[(''BTC'', sample_position ''BTC'' ''0.5''), (''ETH'', sample_position ''ETH'' ''-3'')]"
        stdlib "''2024-01-01 00:00:00''" sample_wallet f_zero]
  by (simp add: empty_state_def)


end
